theory Spec2Isabelle
  imports Main "HOL-Library.Sublist"
begin

section \<open>Python values and attribute access\<close>

text \<open>
  The controller of \<^verbatim>\<open>src/app/browser_controller.py\<close> inspects objects of two external
  libraries by duck typing (\<^verbatim>\<open>hasattr\<close>, \<^verbatim>\<open>getattr\<close> with a default, \<^verbatim>\<open>isinstance\<close>,
  truthiness). The values it can meet are modelled by \<open>pyval\<close>: \<^verbatim>\<open>None\<close>, a boolean, a
  string, or some other object (\<open>PObj\<close>, with Python's default truthiness).
  An attribute of an object is an \<open>option\<close>: \<open>None\<close> when the object has no such
  attribute. An exception is modelled by the text \<^verbatim>\<open>str(e)\<close> gives, the only thing the
  code ever reads of it.
\<close>

datatype pyval = PNone | PBool bool | PStr string | PObj nat

type_synonym exn = string

fun truthy :: "pyval \<Rightarrow> bool" where
  "truthy PNone = False"
| "truthy (PBool b) = b"
| "truthy (PStr s) = (s \<noteq> [])"
| "truthy (PObj n) = True"

fun isinstance_str :: "pyval \<Rightarrow> bool" where
  "isinstance_str (PStr s) = True"
| "isinstance_str v = False"

text \<open>\<^verbatim>\<open>getattr(obj, name, d)\<close>: the attribute, or \<open>d\<close> when it is absent.\<close>

definition getattr :: "'a option \<Rightarrow> 'a \<Rightarrow> 'a" where
  "getattr a d = (case a of None \<Rightarrow> d | Some v \<Rightarrow> v)"

text \<open>
  \<^verbatim>\<open>obj.name\<close>: the attribute, or an \<^verbatim>\<open>AttributeError\<close> when it is absent. (Python's
  message also names the class of the object; the model keeps the name of the
  attribute. No property below depends on the wording.)
\<close>

definition attr :: "string \<Rightarrow> 'a option \<Rightarrow> exn + 'a" where
  "attr name a =
     (case a of
        None \<Rightarrow> Inl (''object has no attribute '' @ name)
      | Some v \<Rightarrow> Inr v)"

section \<open>The agent's action trace\<close>

text \<open>
  The value \<^verbatim>\<open>agent.run()\<close> returns. The code reads one attribute of it, \<^verbatim>\<open>all_results\<close>
  (which may be absent), and three attributes of each action (each of which may be
  absent). When \<^verbatim>\<open>all_results\<close> is present it is taken to be a list.
\<close>

record action =
  is_done :: "pyval option"
  success :: "pyval option"
  extracted_content :: "pyval option"

record agent_result =
  all_results :: "action list option"

section \<open>Direct extraction, \<^verbatim>\<open>process_query\<close> lines 221--250\<close>

definition generic_fallback :: string where
  "generic_fallback =
     ''I found information related to your query but had trouble formatting the results.''"

definition based_on_search :: "string \<Rightarrow> string" where
  "based_on_search query =
     ''Based on my web search, I found information related to your query about '' @ query"

text \<open>
  Lines 225--233, the handler of \<^verbatim>\<open>sync_error\<close> (the summarizer's \<^verbatim>\<open>invoke\<close> raised).
  The \<^verbatim>\<open>for ... else\<close> over \<^verbatim>\<open>reversed(result.all_results)\<close> stops at the first action,
  from the end, whose \<^verbatim>\<open>is_done\<close> (default \<^verbatim>\<open>False\<close>) and \<^verbatim>\<open>success\<close> (default
  \<^verbatim>\<open>True\<close>) are both truthy.
\<close>

definition done_success_sync :: "action \<Rightarrow> bool" where
  "done_success_sync a =
     (truthy (getattr (is_done a) (PBool False)) \<and> truthy (getattr (success a) (PBool True)))"

definition extract_on_sync_error :: "agent_result \<Rightarrow> pyval" where
  "extract_on_sync_error result =
     (case all_results result of
        None \<Rightarrow> PStr generic_fallback
      | Some acts \<Rightarrow>
          if acts \<noteq> [] then
            (case find done_success_sync (rev acts) of
               Some a \<Rightarrow> getattr (extracted_content a) (PStr [])
             | None \<Rightarrow> getattr (extracted_content (last acts)) (PStr []))
          else PStr generic_fallback)"

text \<open>
  Lines 239--250, the handler of \<^verbatim>\<open>summarization_error\<close> (building the prompt or the
  summarizer raised). Here \<^verbatim>\<open>success\<close> defaults to \<^verbatim>\<open>False\<close>, the content is read with
  plain attribute access (which raises when the attribute is absent; the exception
  leaves the handler), an empty list gives the empty string, and a result without
  \<^verbatim>\<open>all_results\<close> gives a sentence that ends with the query.
\<close>

definition done_success_summ :: "action \<Rightarrow> bool" where
  "done_success_summ a =
     (truthy (getattr (is_done a) (PBool False)) \<and> truthy (getattr (success a) (PBool False)))"

definition extract_on_summarization_error :: "string \<Rightarrow> agent_result \<Rightarrow> exn + pyval" where
  "extract_on_summarization_error query result =
     (case all_results result of
        None \<Rightarrow> Inr (PStr (based_on_search query))
      | Some acts \<Rightarrow>
          (let done_actions = filter done_success_summ acts in
           if done_actions \<noteq> [] then
             attr ''extracted_content'' (extracted_content (last done_actions))
           else if acts \<noteq> [] then
             attr ''extracted_content'' (extracted_content (last acts))
           else Inr (PStr [])))"

subsection \<open>The policy in the specification's words\<close>

text \<open>
  An action is marked done and success when both flags are present and truthy. The
  policy picks the last such action; if there is none, the last action of the trace;
  if the trace is empty, no action (the caller then gives the generic statement).
\<close>

definition flag_set :: "pyval option \<Rightarrow> bool" where
  "flag_set f = (case f of None \<Rightarrow> False | Some v \<Rightarrow> truthy v)"

definition marked_done_success :: "action \<Rightarrow> bool" where
  "marked_done_success a = (flag_set (is_done a) \<and> flag_set (success a))"

definition policy_select :: "action list \<Rightarrow> action option" where
  "policy_select acts =
     (if filter marked_done_success acts \<noteq> [] then Some (last (filter marked_done_success acts))
      else if acts \<noteq> [] then Some (last acts)
      else None)"

definition policy_answer :: "agent_result \<Rightarrow> pyval option" where
  "policy_answer result =
     (case all_results result of
        None \<Rightarrow> Some (PStr generic_fallback)
      | Some acts \<Rightarrow>
          (case policy_select acts of
             None \<Rightarrow> Some (PStr generic_fallback)
           | Some a \<Rightarrow> extracted_content a))"

text \<open>Every action that is marked done also carries a success flag.\<close>

definition success_flags_explicit :: "action list \<Rightarrow> bool" where
  "success_flags_explicit acts =
     list_all (\<lambda>a. \<not> (flag_set (is_done a) \<and> success a = None)) acts"

section \<open>The remote browser provider\<close>

text \<open>
  The Browserbase client is an external service. Each of its calls either raises or
  returns; a \<open>provider\<close> fixes what each call does during one operation of the
  controller.
\<close>

record remote_session =
  ident :: string  \<comment> \<open>the attribute \<^verbatim>\<open>id\<close>\<close>
  connect_url :: string

record debug_info =
  debuggerFullscreenUrl :: string

record provider =
  sessions_create :: "exn + remote_session"
  sessions_debug :: "string \<Rightarrow> exn + debug_info"
  sessions_list :: "exn + remote_session list"
  sessions_retrieve :: "string \<Rightarrow> exn + remote_session"
  sessions_delete :: "string \<Rightarrow> exn option"  \<comment> \<open>\<open>None\<close>: the call returned\<close>

section \<open>The controller, \<^verbatim>\<open>BrowserController\<close>\<close>

text \<open>
  The fields the methods read or write. \<^verbatim>\<open>__init__\<close> never assigns \<^verbatim>\<open>connection_url\<close>:
  the attribute does not exist until \<^verbatim>\<open>start_session\<close> assigns it, which is the value
  \<open>None\<close> of the field here. (The fields \<^verbatim>\<open>bb\<close>, \<^verbatim>\<open>project_id\<close>, \<^verbatim>\<open>dimensions\<close>,
  \<^verbatim>\<open>current_task\<close> and \<^verbatim>\<open>agent\<close> hold configuration or are only ever \<^verbatim>\<open>None\<close>.)
\<close>

record controller =
  user_id :: string
  session_id :: "string option"
  session :: "remote_session option"
  current_url :: "string option"
  streaming :: bool
  history :: "string list"
  debug_links :: "debug_info option"
  steps :: "string list"
  connection_url :: "string option"

definition init :: "string \<Rightarrow> controller" where
  "init uid =
     \<lparr> user_id = uid, session_id = None, session = None, current_url = None,
       streaming = False, history = [], debug_links = None, steps = [],
       connection_url = None \<rparr>"

subsection \<open>\<^verbatim>\<open>start_session\<close>\<close>

datatype start_result =
    Connected string string string  \<comment> \<open>\<^verbatim>\<open>session_id\<close>, \<^verbatim>\<open>current_url\<close>, \<^verbatim>\<open>live_view_url\<close>\<close>
  | StartError exn

definition google :: string where
  "google = ''https://www.google.com''"

definition limit_message :: string where
  "limit_message = ''You've exceeded your max concurrent sessions limit''"

text \<open>Lines 124--130: the outer handler turns any exception into an error result.\<close>

definition start_failed :: "exn \<Rightarrow> controller \<Rightarrow> controller \<times> start_result" where
  "start_failed e c = (c, StartError e)"

text \<open>
  The assignments after a session object is at hand (lines 70--88 with the label
  \<open>''Browser session initialized''\<close>, lines 104--118 with \<open>''Browser session reused''\<close>).
  The result is \<open>Inl\<close> when \<^verbatim>\<open>sessions.debug\<close> raises: \<^verbatim>\<open>session\<close> and \<^verbatim>\<open>session_id\<close>
  are assigned by then, \<^verbatim>\<open>connection_url\<close> is not.
\<close>

definition adopt ::
  "provider \<Rightarrow> string \<Rightarrow> remote_session \<Rightarrow> controller \<Rightarrow> (exn \<times> controller) + (controller \<times> start_result)"
where
  "adopt p label s c =
     (let c1 = c\<lparr>session := Some s, session_id := Some (ident s)\<rparr> in
      case sessions_debug p (ident s) of
        Inl e \<Rightarrow> Inl (e, c1)
      | Inr d \<Rightarrow>
          (let c2 = c1\<lparr>debug_links := Some d, current_url := Some google,
                        connection_url := Some (connect_url s)\<rparr>;
               c3 = c2\<lparr>steps := steps c2 @ [label, ''Starting with '' @ google]\<rparr>
           in Inr (c3, Connected (ident s) google (debuggerFullscreenUrl d))))"

text \<open>
  Lines 90--122: the handler of the inner \<^verbatim>\<open>try\<close>. An exception raised inside it
  (by \<^verbatim>\<open>sessions.list\<close>, \<^verbatim>\<open>sessions.retrieve\<close> or \<^verbatim>\<open>sessions.debug\<close>) reaches the outer
  handler, as \<^verbatim>\<open>raise e\<close> does.
\<close>

definition reuse_existing :: "provider \<Rightarrow> exn \<Rightarrow> controller \<Rightarrow> controller \<times> start_result" where
  "reuse_existing p e c =
     (if sublist limit_message e then
        (case sessions_list p of
           Inl e' \<Rightarrow> start_failed e' c
         | Inr sessions \<Rightarrow>
             (case sessions of
                [] \<Rightarrow> start_failed e c
              | first # rest \<Rightarrow>
                  (case sessions_retrieve p (ident first) of
                     Inl e' \<Rightarrow> start_failed e' c
                   | Inr s \<Rightarrow>
                       (case adopt p ''Browser session reused'' s c of
                          Inl (e', c') \<Rightarrow> start_failed e' c'
                        | Inr r \<Rightarrow> r))))
      else start_failed e c)"

definition start_session :: "provider \<Rightarrow> controller \<Rightarrow> controller \<times> start_result" where
  "start_session p c =
     (case sessions_create p of
        Inl e \<Rightarrow> reuse_existing p e c
      | Inr s \<Rightarrow>
          (case adopt p ''Browser session initialized'' s c of
             Inl (e, c') \<Rightarrow> reuse_existing p e c'
           | Inr r \<Rightarrow> r))"

subsection \<open>\<^verbatim>\<open>stop_session\<close>\<close>

text \<open>
  Lines 399--418. The fields are cleared when the identifier is truthy, whether the
  provider's \<^verbatim>\<open>delete\<close> returns or raises; \<^verbatim>\<open>connection_url\<close> is not among them.
\<close>

definition closed :: "controller \<Rightarrow> controller" where
  "closed c = c\<lparr>session_id := None, session := None, streaming := False\<rparr>"

definition stop_session :: "provider \<Rightarrow> controller \<Rightarrow> controller" where
  "stop_session p c =
     (case session_id c of
        None \<Rightarrow> c
      | Some sid \<Rightarrow>
          if sid \<noteq> [] then
            (case sessions_delete p sid of
               None \<Rightarrow> closed c
             | Some e \<Rightarrow> closed c)
          else c)"

subsection \<open>\<^verbatim>\<open>process_query\<close>\<close>

text \<open>
  What the external calls of one \<^verbatim>\<open>process_query\<close> do, in the order the method makes
  them: the two \<^verbatim>\<open>ChatOpenAI\<close> constructors (lines 147--148); the construction of the
  browser handle and of the agent (lines 154--175); \<^verbatim>\<open>agent.run()\<close> (line 182); building
  the prompt and the summarizer (lines 194--216); the summarizer's \<^verbatim>\<open>invoke\<close> and the
  text read from its response (lines 219--220); the attribute \<^verbatim>\<open>current_url\<close> of the
  browser handle (line 256); \<^verbatim>\<open>browser.close()\<close> (line 267). For a call that only
  raises or returns, \<open>None\<close> says that it returned.
\<close>

record query_env =
  llm_ctor :: "exn option"
  agent_setup :: "exn option"
  agent_run :: "exn + agent_result"
  summary_setup :: "exn option"
  summary_invoke :: "exn + pyval"
  browser_current_url :: "string option"
  browser_close :: "exn option"

text \<open>The three dictionaries the method returns, by their \<^verbatim>\<open>status\<close>.\<close>

datatype query_result =
    QSuccess pyval "string option" "string list"
      \<comment> \<open>\<^verbatim>\<open>aiResponse\<close>, \<^verbatim>\<open>current_url\<close>, \<^verbatim>\<open>steps\<close>\<close>
  | QPartial string "string option" "string list"
      \<comment> \<open>\<^verbatim>\<open>aiResponse\<close>, \<^verbatim>\<open>current_url\<close>, \<^verbatim>\<open>steps\<close>\<close>
  | QError exn string "string list"
      \<comment> \<open>\<^verbatim>\<open>error\<close>, \<^verbatim>\<open>aiResponse\<close>, \<^verbatim>\<open>steps\<close>\<close>

fun status :: "query_result \<Rightarrow> string" where
  "status (QSuccess a u st) = ''success''"
| "status (QPartial a u st) = ''partial_success''"
| "status (QError e a st) = ''error''"

fun aiResponse :: "query_result \<Rightarrow> pyval" where
  "aiResponse (QSuccess a u st) = a"
| "aiResponse (QPartial a u st) = PStr a"
| "aiResponse (QError e a st) = PStr a"

fun result_steps :: "query_result \<Rightarrow> string list" where
  "result_steps (QSuccess a u st) = st"
| "result_steps (QPartial a u st) = st"
| "result_steps (QError e a st) = st"

text \<open>Lines 185--250: the answer before sanitization.\<close>

definition candidate_answer :: "query_env \<Rightarrow> string \<Rightarrow> agent_result \<Rightarrow> exn + pyval" where
  "candidate_answer w query result =
     (case summary_setup w of
        Some e \<Rightarrow> extract_on_summarization_error query result
      | None \<Rightarrow>
          (case summary_invoke w of
             Inr text \<Rightarrow> Inr text
           | Inl e \<Rightarrow> Inr (extract_on_sync_error result)))"

text \<open>Lines 255--264: the location of the browser, the history and its cap.\<close>

definition trim_history :: "string list \<Rightarrow> string list" where
  "trim_history h = (if length h > 10 then drop (length h - 10) h else h)"

definition update_location :: "string option \<Rightarrow> controller \<Rightarrow> controller" where
  "update_location url c =
     (case url of
        None \<Rightarrow> c
      | Some u \<Rightarrow>
          if u \<noteq> [] then
            (let c1 = c\<lparr>current_url := Some u\<rparr> in
             case current_url c1 of
               None \<Rightarrow> c1
             | Some v \<Rightarrow>
                 if v \<noteq> [] then
                   (let c2 = c1\<lparr>history := trim_history (history c1 @ [v])\<rparr>
                    in c2\<lparr>steps := steps c2 @ [''Navigated to '' @ v]\<rparr>)
                 else c1)
          else c)"

text \<open>Lines 269--272: sanitization.\<close>

definition object_tag :: string where
  "object_tag = ''AgentHistoryList''"

definition apology :: "string \<Rightarrow> string" where
  "apology query =
     ''I searched for information about '' @ query @
     '', but encountered an issue formatting the results.''"

fun startswith :: "pyval \<Rightarrow> string \<Rightarrow> bool" where
  "startswith (PStr s) t = prefix t s"
| "startswith v t = False"

definition sanitize :: "string \<Rightarrow> pyval \<Rightarrow> pyval" where
  "sanitize query v =
     (if \<not> isinstance_str v \<or> startswith v object_tag \<or> \<not> truthy v
      then PStr (apology query) else v)"

text \<open>
  Lines 284--301: the handler of \<^verbatim>\<open>browser_error\<close>. (Its inner \<^verbatim>\<open>try\<close> only concatenates
  strings, so its own handler, lines 302--309, is never entered.)
\<close>

definition browser_failed :: "exn \<Rightarrow> controller \<Rightarrow> controller \<times> query_result" where
  "browser_failed e c =
     (let c' = c\<lparr>steps := steps c @ [''Browser error: '' @ e]\<rparr> in
      (c', QPartial
             (''I encountered an issue while trying to browse the web: '' @ e @
              ''. I'm unable to access web content for this query right now.'')
             (current_url c') (steps c')))"

text \<open>Lines 311--320: the outermost handler.\<close>

definition query_failed :: "exn \<Rightarrow> controller \<Rightarrow> controller \<times> query_result" where
  "query_failed e c =
     (let c' = c\<lparr>steps := steps c @ [''Error: '' @ e]\<rparr> in
      (c', QError e (''I encountered an error while processing your request: '' @ e) (steps c')))"

definition process_query :: "query_env \<Rightarrow> string \<Rightarrow> controller \<Rightarrow> controller \<times> query_result" where
  "process_query w query c =
     (let c1 = c\<lparr>steps := steps c @ [''Processing query: '' @ query]\<rparr> in
      case llm_ctor w of
        Some e \<Rightarrow> query_failed e c1
      | None \<Rightarrow>
          (case attr ''connection_url'' (connection_url c1) of
             Inl e \<Rightarrow> query_failed e c1
           | Inr cdp_url \<Rightarrow>
               (case agent_setup w of
                  Some e \<Rightarrow> browser_failed e c1
                | None \<Rightarrow>
                    (let c2 = c1\<lparr>steps := steps c1 @ [''Browser agent initialized'']\<rparr>;
                         c3 = c2\<lparr>steps := steps c2 @ [''Executing query...'']\<rparr>
                     in case agent_run w of
                          Inl e \<Rightarrow> browser_failed e c3
                        | Inr result \<Rightarrow>
                            (case candidate_answer w query result of
                               Inl e \<Rightarrow> browser_failed e c3
                             | Inr final_text_result \<Rightarrow>
                                 (let c4 = c3\<lparr>steps := steps c3 @ [''Query execution completed'']\<rparr>;
                                      c5 = update_location (browser_current_url w) c4
                                  in case browser_close w of
                                       Some e \<Rightarrow> browser_failed e c5
                                     | None \<Rightarrow>
                                         (c5, QSuccess (sanitize query final_text_result)
                                                (current_url c5) (steps c5))))))))"

section \<open>The session table and the endpoints, \<^verbatim>\<open>src/app/main.py\<close>\<close>

type_synonym table = "string \<rightharpoonup> controller"

datatype start_response =
    AlreadyExists "string option"  \<comment> \<open>\<^verbatim>\<open>"Session already exists"\<close> with the stored \<^verbatim>\<open>session_id\<close>\<close>
  | Started string string  \<comment> \<open>\<^verbatim>\<open>session_id\<close>, \<^verbatim>\<open>current_url\<close>\<close>
  | StartHTTP500 exn

definition start_browser :: "provider \<Rightarrow> string \<Rightarrow> table \<Rightarrow> table \<times> start_response" where
  "start_browser p uid t =
     (case t uid of
        Some c \<Rightarrow> (t, AlreadyExists (session_id c))
      | None \<Rightarrow>
          (case start_session p (init uid) of
             (c, StartError e) \<Rightarrow> ((t(uid \<mapsto> c))(uid := None), StartHTTP500 e)
           | (c, Connected sid url live) \<Rightarrow> (t(uid \<mapsto> c), Started sid url)))"

datatype query_response =
    HTTP404  \<comment> \<open>\<^verbatim>\<open>"No active browser session found"\<close>\<close>
  | HTTP500 exn  \<comment> \<open>the \<^verbatim>\<open>detail\<close> is the \<^verbatim>\<open>error\<close> of the result, nothing else of it\<close>
  | Answer pyval "string option" "string list"  \<comment> \<open>\<^verbatim>\<open>response\<close>, \<^verbatim>\<open>current_url\<close>, \<^verbatim>\<open>steps\<close>\<close>

text \<open>The endpoint \<^verbatim>\<open>process_query\<close> of \<^verbatim>\<open>main.py\<close> (lines 69--90).\<close>

definition api_process_query ::
  "query_env \<Rightarrow> string \<Rightarrow> string \<Rightarrow> table \<Rightarrow> table \<times> query_response"
where
  "api_process_query w uid query t =
     (case t uid of
        None \<Rightarrow> (t, HTTP404)
      | Some c \<Rightarrow>
          (case process_query w query c of
             (c', QError e a st) \<Rightarrow> (t(uid \<mapsto> c'), HTTP500 e)
           | (c', QSuccess a u st) \<Rightarrow> (t(uid \<mapsto> c'), Answer a u st)
           | (c', QPartial a u st) \<Rightarrow> (t(uid \<mapsto> c'), Answer (PStr a) u st)))"

text \<open>The narration log in the body of a response, when the body has one.\<close>

fun response_steps :: "query_response \<Rightarrow> string list option" where
  "response_steps (Answer a u st) = Some st"
| "response_steps r = None"

definition stop_browser :: "provider \<Rightarrow> string \<Rightarrow> table \<Rightarrow> table \<times> string" where
  "stop_browser p uid t =
     (case t uid of
        None \<Rightarrow> (t, ''No active session found'')
      | Some c \<Rightarrow> ((t(uid \<mapsto> stop_session p c))(uid := None), ''Browser session stopped''))"

text \<open>
  A sequence of calls of the endpoint \<^verbatim>\<open>start_browser\<close> for one user, one provider
  behaviour per call: the table after the last call and the responses in order.
\<close>

fun start_browser_calls :: "provider list \<Rightarrow> string \<Rightarrow> table \<Rightarrow> table \<times> start_response list" where
  "start_browser_calls [] uid t = (t, [])"
| "start_browser_calls (p # ps) uid t =
     (case start_browser p uid t of
        (t', r) \<Rightarrow>
          (case start_browser_calls ps uid t' of
             (t'', rs) \<Rightarrow> (t'', r # rs)))"

section \<open>The stream relay, \<^verbatim>\<open>stream_browser\<close>\<close>

text \<open>
  The messages passed to \<^verbatim>\<open>websocket.send_json\<close>, by their \<^verbatim>\<open>type\<close>. A \<open>socket\<close> says of
  each message whether \<^verbatim>\<open>send_json\<close> returns (\<open>True\<close>) or raises.
\<close>

datatype message =
    StatusMsg string "string option"  \<comment> \<open>\<^verbatim>\<open>status\<close>, \<^verbatim>\<open>session_id\<close>\<close>
  | UrlMsg string
  | StepsMsg "string list"
  | LiveViewMsg string

type_synonym socket = "message \<Rightarrow> bool"

fun is_steps :: "message \<Rightarrow> bool" where
  "is_steps (StepsMsg st) = True"
| "is_steps m = False"

text \<open>\<^verbatim>\<open>self.current_url or "about:blank"\<close>\<close>

definition url_or_blank :: "controller \<Rightarrow> string" where
  "url_or_blank c =
     (case current_url c of
        None \<Rightarrow> ''about:blank''
      | Some u \<Rightarrow> if u \<noteq> [] then u else ''about:blank'')"

text \<open>Lines 365--369: the live-view message, when the links and the URL are truthy.\<close>

definition live_view :: "controller \<Rightarrow> message list" where
  "live_view c =
     (case debug_links c of
        None \<Rightarrow> []
      | Some d \<Rightarrow>
          if debuggerFullscreenUrl d \<noteq> [] then [LiveViewMsg (debuggerFullscreenUrl d)]
          else [])"

text \<open>
  Every \<^verbatim>\<open>send_json\<close> is awaited, and while it is, the queries of the same user may
  append to the log. A pass reads each field it pushes once (\<^verbatim>\<open>debug_links\<close>,
  \<^verbatim>\<open>current_url\<close>, \<^verbatim>\<open>steps\<close>): the controller \<open>c\<close> given to a pass holds the values it
  reads. After the awaited push of the log the code reads \<^verbatim>\<open>len(self.steps)\<close> again
  (lines 358 and 383): \<open>after\<close> is the controller as it is then.
\<close>


text \<open>
  Lines 363--391: one pass of the loop body. The result is the messages delivered and
  the new \<^verbatim>\<open>last_steps_count\<close>. A \<^verbatim>\<open>send_json\<close> that raises skips the rest of the pass
  (the handler of line 389), and the loop goes on.
\<close>

definition relay_tick ::
  "socket \<Rightarrow> controller \<Rightarrow> controller \<Rightarrow> nat \<Rightarrow> message list \<times> nat"
where
  "relay_tick ws c after last_steps_count =
     (let lv = live_view c;
          url = UrlMsg (url_or_blank c);
          log = StepsMsg (steps c)
      in if \<not> list_all ws lv then ([], last_steps_count)
         else if \<not> ws url then (lv, last_steps_count)
         else if length (steps c) > last_steps_count then
           (if ws log then (lv @ [url, log], length (steps after))
            else (lv @ [url], last_steps_count))
         else (lv @ [url], last_steps_count))"

text \<open>
  The loop \<^verbatim>\<open>while self.streaming\<close>. Between two passes the loop sleeps, and the queries
  of the same user change the controller: each pass is given the socket as it behaves
  then, the controller as the pass reads it, and the controller as it is when the push
  of the log returns. The result lists the messages of each pass.
\<close>

fun relay_loop :: "(socket \<times> controller \<times> controller) list \<Rightarrow> nat \<Rightarrow> message list list" where
  "relay_loop [] last_steps_count = []"
| "relay_loop ((ws, c, after) # rest) last_steps_count =
     (if streaming c then
        (case relay_tick ws c after last_steps_count of
           (sent, n) \<Rightarrow> sent # relay_loop rest n)
      else [])"


definition accepting :: socket where
  "accepting = (\<lambda>m. True)"

section \<open>The life of a controller\<close>

text \<open>
  The operations that change a controller, each with what the external services do
  during it, and a run of them.
\<close>

datatype operation =
    Start provider
  | Query query_env string
  | Stop provider

fun apply_operation :: "operation \<Rightarrow> controller \<Rightarrow> controller" where
  "apply_operation (Start p) c = fst (start_session p c)"
| "apply_operation (Query w q) c = fst (process_query w q c)"
| "apply_operation (Stop p) c = stop_session p c"

definition run :: "operation list \<Rightarrow> controller \<Rightarrow> controller" where
  "run ops c = foldl (\<lambda>c operation. apply_operation operation c) c ops"

section \<open>Sample inputs\<close>

text \<open>A result that carries the trace \<open>acts\<close>, and one without \<^verbatim>\<open>all_results\<close>.\<close>

definition trace :: "action list \<Rightarrow> agent_result" where
  "trace acts = \<lparr>all_results = Some acts\<rparr>"

definition no_trace :: agent_result where
  "no_trace = \<lparr>all_results = None\<rparr>"

definition action_A :: action where
  "action_A =
     \<lparr>is_done = Some (PBool False), success = None, extracted_content = Some (PStr ''a'')\<rparr>"

definition action_B :: action where
  "action_B =
     \<lparr>is_done = Some (PBool True), success = Some (PBool False),
      extracted_content = Some (PStr ''b'')\<rparr>"

definition action_C :: action where
  "action_C =
     \<lparr>is_done = Some (PBool True), success = Some (PBool True),
      extracted_content = Some (PStr ''c'')\<rparr>"

definition action_D :: action where
  "action_D =
     \<lparr>is_done = Some (PBool False), success = None, extracted_content = Some (PStr ''d'')\<rparr>"

definition action_E :: action where
  "action_E =
     \<lparr>is_done = Some (PBool True), success = None, extracted_content = Some (PStr ''e'')\<rparr>"

text \<open>
  Providers: one that works; one that is down; one whose \<^verbatim>\<open>debug\<close> call raises; and one
  at its limit of concurrent sessions, which lists a session and gives its full record
  on retrieval.
\<close>

definition remote_1 :: remote_session where
  "remote_1 = \<lparr>ident = ''sess-1'', connect_url = ''wss://connect.example/sess-1''\<rparr>"

definition remote_2_listed :: remote_session where
  "remote_2_listed = \<lparr>ident = ''sess-2'', connect_url = ''wss://stale.example/sess-2''\<rparr>"

definition remote_2 :: remote_session where
  "remote_2 = \<lparr>ident = ''sess-2'', connect_url = ''wss://connect.example/sess-2''\<rparr>"

definition links_1 :: debug_info where
  "links_1 = \<lparr>debuggerFullscreenUrl = ''https://live.example/view''\<rparr>"

definition provider_ok :: provider where
  "provider_ok =
     \<lparr>sessions_create = Inr remote_1,
      sessions_debug = (\<lambda>i. Inr links_1),
      sessions_list = Inr [remote_1],
      sessions_retrieve = (\<lambda>i. Inr remote_1),
      sessions_delete = (\<lambda>i. None)\<rparr>"

definition provider_down :: provider where
  "provider_down =
     \<lparr>sessions_create = Inl ''service unavailable'',
      sessions_debug = (\<lambda>i. Inl ''service unavailable''),
      sessions_list = Inl ''service unavailable'',
      sessions_retrieve = (\<lambda>i. Inl ''service unavailable''),
      sessions_delete = (\<lambda>i. Some ''service unavailable'')\<rparr>"

definition provider_no_debug :: provider where
  "provider_no_debug =
     \<lparr>sessions_create = Inr remote_1,
      sessions_debug = (\<lambda>i. Inl ''debug unavailable''),
      sessions_list = Inr [],
      sessions_retrieve = (\<lambda>i. Inr remote_1),
      sessions_delete = (\<lambda>i. None)\<rparr>"

definition provider_full :: provider where
  "provider_full =
     \<lparr>sessions_create = Inl (''Error 429: '' @ limit_message),
      sessions_debug = (\<lambda>i. Inr links_1),
      sessions_list = Inr [remote_2_listed, remote_1],
      sessions_retrieve = (\<lambda>i. if i = ''sess-2'' then Inr remote_2 else Inl ''not found''),
      sessions_delete = (\<lambda>i. None)\<rparr>"

definition provider_full_alone :: provider where
  "provider_full_alone = provider_full\<lparr>sessions_list := Inr []\<rparr>"

text \<open>
  A controller after a successful start; the same with ten visited pages; and queries
  during which every external call returns, the agent raises, or the language-model
  constructor raises.
\<close>

definition active :: controller where
  "active =
     \<lparr>user_id = ''u'', session_id = Some ''sess-1'', session = Some remote_1,
      current_url = Some google, streaming = False, history = [], debug_links = Some links_1,
      steps = [''Browser session initialized'', ''Starting with '' @ google],
      connection_url = Some ''wss://connect.example/sess-1''\<rparr>"

definition active_10 :: controller where
  "active_10 =
     active\<lparr>history := [''p0'', ''p1'', ''p2'', ''p3'', ''p4'', ''p5'', ''p6'', ''p7'', ''p8'', ''p9'']\<rparr>"

definition env_ok :: query_env where
  "env_ok =
     \<lparr>llm_ctor = None, agent_setup = None,
      agent_run = Inr (trace [action_A, action_B, action_C]),
      summary_setup = None, summary_invoke = Inr (PStr ''It is sunny.''),
      browser_current_url = Some ''https://example.org/p10'', browser_close = None\<rparr>"

definition env_raw :: query_env where
  "env_raw = env_ok\<lparr>summary_invoke := Inr (PStr ''AgentHistoryList(all_results=[])'')\<rparr>"

definition env_agent_down :: query_env where
  "env_agent_down = env_ok\<lparr>agent_run := Inl ''net::ERR_TIMED_OUT''\<rparr>"

definition env_no_llm :: query_env where
  "env_no_llm = env_ok\<lparr>llm_ctor := Some ''api_key must be set''\<rparr>"

text \<open>
  The started controller while a relay runs: before a query, after the query has added
  an entry to its log, and after it has added a second one; and a socket on which every
  \<^verbatim>\<open>send_json\<close> raises.
\<close>

definition watched :: controller where
  "watched = active\<lparr>streaming := True\<rparr>"

definition watched_later :: controller where
  "watched_later = watched\<lparr>steps := steps watched @ [''Processing query: weather'']\<rparr>"

definition watched_latest :: controller where
  "watched_latest = watched_later\<lparr>steps := steps watched_later @ [''Browser agent initialized'']\<rparr>"

definition refusing :: socket where
  "refusing = (\<lambda>m. False)"

section \<open>Properties\<close>

subsection \<open>Direct extraction\<close>

lemma find_rev_last_filter:
  "find P (rev xs) = (if filter P xs = [] then None else Some (last (filter P xs)))"
  by (induction xs rule: rev_induct) auto

lemma done_success_summ_marked: "done_success_summ a = marked_done_success a"
  by (simp add: done_success_summ_def marked_done_success_def flag_set_def getattr_def
      split: option.splits)

lemma done_success_sync_marked:
  "\<not> (flag_set (is_done a) \<and> success a = None) \<Longrightarrow> done_success_sync a = marked_done_success a"
  by (auto simp add: done_success_sync_def marked_done_success_def flag_set_def getattr_def
      split: option.splits)

lemma filter_sync_marked:
  "success_flags_explicit acts \<Longrightarrow> filter done_success_sync acts = filter marked_done_success acts"
  by (induction acts) (auto simp add: success_flags_explicit_def done_success_sync_marked)

lemma sync_policy:
  assumes "all_results result = Some acts" "success_flags_explicit acts"
  shows "extract_on_sync_error result =
     (case policy_select acts of
        None \<Rightarrow> PStr generic_fallback
      | Some a \<Rightarrow> getattr (extracted_content a) (PStr []))"
  using assms
  by (simp add: extract_on_sync_error_def policy_select_def find_rev_last_filter filter_sync_marked)

lemma summ_policy:
  assumes "all_results result = Some acts"
  shows "extract_on_summarization_error q result =
     (case policy_select acts of
        None \<Rightarrow> Inr (PStr [])
      | Some a \<Rightarrow> attr ''extracted_content'' (extracted_content a))"
  using assms
  by (simp add: extract_on_summarization_error_def policy_select_def done_success_summ_marked[abs_def] Let_def)

lemma ex1_select:
  assumes "is_done A = Some (PBool False)" "is_done B = Some (PBool True)" "success B = Some (PBool False)"
    "is_done C = Some (PBool True)" "success C = Some (PBool True)"
  shows "policy_select [A, B, C] = Some C" "success_flags_explicit [A, B, C]"
  using assms by (simp_all add: policy_select_def marked_done_success_def flag_set_def success_flags_explicit_def)

lemma ex2_select:
  assumes "is_done A = Some (PBool False)" "is_done B = Some (PBool False)"
  shows "policy_select [A, B] = Some B" "success_flags_explicit [A, B]"
  using assms by (simp_all add: policy_select_def marked_done_success_def flag_set_def success_flags_explicit_def)

text \<open>
  C1 (amended). Each of the two direct-extraction paths follows the policy of the
  specification in its first two stages: it takes the content of the last action marked
  both done and success and, when there is none, the content of the last action. The
  path taken when the summarizer's \<^verbatim>\<open>invoke\<close> raises does so on the traces whose done
  actions carry a success flag, reads an absent content as the empty string, and gives
  the generic statement for an empty or absent trace. The path taken when building or
  sending the summary raises does so on every trace, raises when the content is absent,
  and gives the empty string for an empty trace and a sentence naming the query for an
  absent one. On \<open>[A(done=false), B(done=true, success=false), C(done=true, success=true)]\<close>
  both paths take the content of \<open>C\<close>; on \<open>[D(done=false), E(done=false)]\<close> both take the
  content of \<open>E\<close>.
\<close>

theorem normalization_policy_per_path:
  "(success_flags_explicit acts \<longrightarrow>
      extract_on_sync_error (trace acts) =
        (case policy_select acts of
           None \<Rightarrow> PStr generic_fallback
         | Some a \<Rightarrow> getattr (extracted_content a) (PStr [])))
   \<and> extract_on_summarization_error q (trace acts) =
        (case policy_select acts of
           None \<Rightarrow> Inr (PStr [])
         | Some a \<Rightarrow> attr ''extracted_content'' (extracted_content a))
   \<and> extract_on_sync_error no_trace = PStr generic_fallback
   \<and> extract_on_summarization_error q no_trace = Inr (PStr (based_on_search q))
   \<and> (is_done A = Some (PBool False) \<and>
        is_done B = Some (PBool True) \<and> success B = Some (PBool False) \<and>
        is_done C = Some (PBool True) \<and> success C = Some (PBool True) \<longrightarrow>
        extract_on_sync_error (trace [A, B, C]) = getattr (extracted_content C) (PStr []) \<and>
        extract_on_summarization_error q (trace [A, B, C]) =
          attr ''extracted_content'' (extracted_content C))
   \<and> (is_done D = Some (PBool False) \<and> is_done E = Some (PBool False) \<longrightarrow>
        extract_on_sync_error (trace [D, E]) = getattr (extracted_content E) (PStr []) \<and>
        extract_on_summarization_error q (trace [D, E]) =
          attr ''extracted_content'' (extracted_content E))
   \<and> extract_on_sync_error (trace []) = PStr generic_fallback
   \<and> extract_on_summarization_error q (trace []) = Inr (PStr [])"
proof -
  have tr: "all_results (trace xs) = Some xs" for xs
    by (simp add: trace_def)
  have sync: "success_flags_explicit xs \<Longrightarrow>
      extract_on_sync_error (trace xs) =
        (case policy_select xs of
           None \<Rightarrow> PStr generic_fallback
         | Some a \<Rightarrow> getattr (extracted_content a) (PStr []))" for xs
    by (rule sync_policy [OF tr])
  have summ: "extract_on_summarization_error q (trace xs) =
        (case policy_select xs of
           None \<Rightarrow> Inr (PStr [])
         | Some a \<Rightarrow> attr ''extracted_content'' (extracted_content a))" for xs
    by (rule summ_policy [OF tr])
  have none: "extract_on_sync_error no_trace = PStr generic_fallback"
    "extract_on_summarization_error q no_trace = Inr (PStr (based_on_search q))"
    by (simp_all add: no_trace_def extract_on_sync_error_def extract_on_summarization_error_def)
  have three: "extract_on_sync_error (trace [A, B, C]) = getattr (extracted_content C) (PStr []) \<and>
        extract_on_summarization_error q (trace [A, B, C]) =
          attr ''extracted_content'' (extracted_content C)"
    if "is_done A = Some (PBool False) \<and>
        is_done B = Some (PBool True) \<and> success B = Some (PBool False) \<and>
        is_done C = Some (PBool True) \<and> success C = Some (PBool True)"
    using that sync [of "[A, B, C]"] summ [of "[A, B, C]"] ex1_select [of A B C]
    by simp
  have two: "extract_on_sync_error (trace [D, E]) = getattr (extracted_content E) (PStr []) \<and>
        extract_on_summarization_error q (trace [D, E]) =
          attr ''extracted_content'' (extracted_content E)"
    if "is_done D = Some (PBool False) \<and> is_done E = Some (PBool False)"
    using that sync [of "[D, E]"] summ [of "[D, E]"] ex2_select [of D E]
    by simp
  have empty: "extract_on_sync_error (trace []) = PStr generic_fallback"
    "extract_on_summarization_error q (trace []) = Inr (PStr [])"
    by (simp_all add: trace_def extract_on_sync_error_def extract_on_summarization_error_def)
  from sync summ none three two empty show ?thesis
    by blast
qed

theorem normalization_policy_per_path_witness:
  "success_flags_explicit [action_A, action_B, action_C]
   \<and> extract_on_sync_error (trace [action_A, action_B, action_C]) = PStr ''c''
   \<and> extract_on_summarization_error ''weather'' (trace [action_A, action_B, action_C]) = Inr (PStr ''c'')
   \<and> extract_on_sync_error (trace [action_A, action_D]) = PStr ''d''
   \<and> extract_on_summarization_error ''weather'' (trace [action_A, action_D]) = Inr (PStr ''d'')"
  using normalization_policy_per_path
    [of "[action_A, action_B, action_C]" "''weather''" action_A action_B action_C action_A action_D]
  by (simp add: action_A_def action_B_def action_C_def action_D_def getattr_def attr_def
      success_flags_explicit_def flag_set_def policy_select_def marked_done_success_def)

text \<open>
  C1 as stated fails on the second path: for the empty trace the policy asks for the
  generic statement and the path gives the empty string; for an absent trace it gives
  another sentence.
\<close>

theorem normalization_policy_counterexample:
  "policy_answer (trace []) = Some (PStr generic_fallback)
   \<and> extract_on_summarization_error ''weather'' (trace []) = Inr (PStr [])
   \<and> PStr [] \<noteq> PStr generic_fallback
   \<and> policy_answer no_trace = Some (PStr generic_fallback)
   \<and> extract_on_summarization_error ''weather'' no_trace
       = Inr (PStr ''Based on my web search, I found information related to your query about weather'')"
  by (simp add: policy_answer_def policy_select_def trace_def no_trace_def generic_fallback_def
      extract_on_summarization_error_def based_on_search_def)

text \<open>
  C10. The two direct-extraction paths are not equal. When the last action of a trace is
  marked done and has no success flag, the first path takes its content, while the
  filter of the second path leaves it out; on the trace \<open>[C, E]\<close>, with \<open>C\<close> done and
  successful and \<open>E\<close> done without a success flag, the first path answers with the
  content of \<open>E\<close> and the second with the content of \<open>C\<close>. On the empty trace the first
  path gives the generic statement and the second the empty string.
\<close>

theorem fallback_paths_differ:
  "(flag_set (is_done b) \<and> success b = None \<longrightarrow>
      extract_on_sync_error (trace (acts @ [b])) = getattr (extracted_content b) (PStr [])
      \<and> filter done_success_summ (acts @ [b]) = filter done_success_summ acts)
   \<and> extract_on_sync_error (trace [action_C, action_E]) = PStr ''e''
   \<and> extract_on_summarization_error q (trace [action_C, action_E]) = Inr (PStr ''c'')
   \<and> extract_on_sync_error (trace []) = PStr generic_fallback
   \<and> extract_on_summarization_error q (trace []) = Inr (PStr [])"
proof -
  have gen: "extract_on_sync_error (trace (acts @ [b])) = getattr (extracted_content b) (PStr [])
      \<and> filter done_success_summ (acts @ [b]) = filter done_success_summ acts"
    if "flag_set (is_done b) \<and> success b = None"
  proof -
    from that have "done_success_sync b" "\<not> done_success_summ b"
      by (auto simp add: done_success_sync_def done_success_summ_def flag_set_def getattr_def
          split: option.splits)
    then show ?thesis
      by (simp add: extract_on_sync_error_def trace_def)
  qed
  have conc: "extract_on_sync_error (trace [action_C, action_E]) = PStr ''e''"
    "extract_on_summarization_error q (trace [action_C, action_E]) = Inr (PStr ''c'')"
    by (simp_all add: extract_on_sync_error_def extract_on_summarization_error_def trace_def
        action_C_def action_E_def done_success_sync_def done_success_summ_def getattr_def attr_def)
  have empty: "extract_on_sync_error (trace []) = PStr generic_fallback"
    "extract_on_summarization_error q (trace []) = Inr (PStr [])"
    by (simp_all add: trace_def extract_on_sync_error_def extract_on_summarization_error_def)
  from gen conc empty show ?thesis by blast
qed

theorem fallback_paths_differ_witness:
  "flag_set (is_done action_E) \<and> success action_E = None
   \<and> extract_on_sync_error (trace ([action_C] @ [action_E])) = PStr ''e''
   \<and> filter done_success_summ ([action_C] @ [action_E]) = [action_C]
   \<and> extract_on_summarization_error ''weather'' (trace [action_C, action_E]) = Inr (PStr ''c'')
   \<and> Inr (extract_on_sync_error (trace [action_C, action_E]))
       \<noteq> extract_on_summarization_error ''weather'' (trace [action_C, action_E])
   \<and> Inr (extract_on_sync_error (trace [])) \<noteq> extract_on_summarization_error ''weather'' (trace [])"
  using fallback_paths_differ [of action_E "[action_C]" "''weather''"]
  by (simp add: action_C_def action_E_def flag_set_def getattr_def done_success_summ_def
      generic_fallback_def)

subsection \<open>The life cycle of the session fields\<close>

lemma start_session_connected:
  assumes "start_session p c = (c', Connected sid url live)"
  shows "\<exists>s. session c' = Some s \<and> session_id c' = Some (ident s) \<and> sid = ident s
           \<and> connection_url c' = Some (connect_url s)"
  using assms
  by (auto simp add: start_session_def reuse_existing_def adopt_def start_failed_def Let_def
      split: sum.splits list.splits if_splits prod.splits)




lemma start_ok: "start_session provider_ok (init uid) =
  (\<lparr>user_id = uid, session_id = Some ''sess-1'', session = Some remote_1,
     current_url = Some google, streaming = False, history = [], debug_links = Some links_1,
     steps = [''Browser session initialized'', ''Starting with '' @ google],
     connection_url = Some ''wss://connect.example/sess-1''\<rparr>,
   Connected ''sess-1'' google ''https://live.example/view'')"
  by (simp add: start_session_def adopt_def provider_ok_def init_def remote_1_def links_1_def)




text \<open>
  When the creation call returns and the \<^verbatim>\<open>debug\<close> call raises, \<^verbatim>\<open>start_session\<close> returns
  an error with the identifier assigned and the connection URL not yet assigned.
\<close>

lemma start_session_debug_failure:
  "snd (start_session provider_no_debug (init ''u'')) = StartError ''debug unavailable''
   \<and> session_id (fst (start_session provider_no_debug (init ''u''))) = Some ''sess-1''
   \<and> connection_url (fst (start_session provider_no_debug (init ''u''))) = None"
  by (simp add: start_session_def adopt_def reuse_existing_def start_failed_def provider_no_debug_def
      init_def remote_1_def limit_message_def sublist_Cons_right)

subsection \<open>The history\<close>

lemma length_trim_history: "length (trim_history h) \<le> 10"
  by (simp add: trim_history_def)

lemma trim_history_full:
  assumes "length h = 10"
  shows "trim_history (h @ [u]) = tl h @ [u]"
proof -
  from assms obtain x xs where h: "h = x # xs"
    by (cases h) auto
  with assms show ?thesis
    by (simp add: trim_history_def)
qed

lemma trim_history_short: "length h < 10 \<Longrightarrow> trim_history (h @ [u]) = h @ [u]"
  by (simp add: trim_history_def)

lemma history_update_location:
  "history (update_location url c) =
     (case url of
        None \<Rightarrow> history c
      | Some u \<Rightarrow> if u \<noteq> [] then trim_history (history c @ [u]) else history c)"
  by (simp add: update_location_def Let_def split: option.splits)

lemma history_browser_failed: "history (fst (browser_failed e c)) = history c"
  by (simp add: browser_failed_def Let_def)

lemma history_query_failed: "history (fst (query_failed e c)) = history c"
  by (simp add: query_failed_def Let_def)

lemma status_browser_failed: "status (snd (browser_failed e c)) = ''partial_success''"
  by (simp add: browser_failed_def Let_def)

lemma status_query_failed: "status (snd (query_failed e c)) = ''error''"
  by (simp add: query_failed_def Let_def)

lemma history_process_query_le:
  assumes "length (history c) \<le> 10"
  shows "length (history (fst (process_query w q c))) \<le> 10"
  using assms
  by (simp add: process_query_def Let_def history_browser_failed history_query_failed
      history_update_location length_trim_history
      split: option.splits sum.splits)

lemma history_adopt:
  "adopt p label s c = Inl (e, c') \<Longrightarrow> history c' = history c"
  "adopt p label s c = Inr (c', r) \<Longrightarrow> history c' = history c"
  by (auto simp add: adopt_def Let_def split: sum.splits)

lemma history_reuse_existing: "history (fst (reuse_existing p e c)) = history c"
  by (auto simp add: reuse_existing_def start_failed_def history_adopt
      split: sum.splits list.splits prod.splits)

lemma history_start_session: "history (fst (start_session p c)) = history c"
  by (auto simp add: start_session_def history_reuse_existing history_adopt
      split: sum.splits prod.splits)

lemma history_stop_session: "history (stop_session p c) = history c"
  by (simp add: stop_session_def closed_def split: option.splits)

lemma history_apply_operation_le:
  "length (history c) \<le> 10 \<Longrightarrow> length (history (apply_operation operation c)) \<le> 10"
  by (cases operation)
    (simp_all add: history_start_session history_stop_session history_process_query_le)

lemma history_run_le:
  "length (history c) \<le> 10 \<Longrightarrow> length (history (run ops c)) \<le> 10"
  unfolding run_def
  by (induction ops arbitrary: c) (simp_all add: history_apply_operation_le)

lemma history_process_query_success:
  assumes "status (snd (process_query w q c)) = ''success''"
  shows "history (fst (process_query w q c)) = history (update_location (browser_current_url w) c)"
  using assms
  by (simp add: process_query_def Let_def status_browser_failed status_query_failed
      history_update_location
      split: option.splits sum.splits)

text \<open>
  C3. Whatever is done to a controller after its construction (starts, queries and
  stops, with the external services behaving in any way), its history has at most 10
  entries; one query keeps that bound. When a query succeeds with the browser at a
  page \<open>u\<close> and the history holds 10 entries, the new history is the old one without
  its first entry, in the same order, followed by \<open>u\<close>; with fewer than 10 entries,
  \<open>u\<close> is appended and nothing is dropped.
\<close>

theorem history_bounded:
  "length (history (run ops (init uid))) \<le> 10
   \<and> (length (history c) \<le> 10 \<longrightarrow> length (history (fst (process_query w q c))) \<le> 10)
   \<and> (status (snd (process_query w q c)) = ''success'' \<and> browser_current_url w = Some u \<and> u \<noteq> []
        \<and> length (history c) = 10 \<longrightarrow>
        history (fst (process_query w q c)) = tl (history c) @ [u])
   \<and> (status (snd (process_query w q c)) = ''success'' \<and> browser_current_url w = Some u \<and> u \<noteq> []
        \<and> length (history c) < 10 \<longrightarrow>
        history (fst (process_query w q c)) = history c @ [u])"
proof -
  have "length (history (init uid)) \<le> 10"
    by (simp add: init_def)
  then have inv: "length (history (run ops (init uid))) \<le> 10"
    by (rule history_run_le)
  have full: "history (fst (process_query w q c)) = tl (history c) @ [u]"
    if "status (snd (process_query w q c)) = ''success'' \<and> browser_current_url w = Some u \<and> u \<noteq> []
        \<and> length (history c) = 10"
    using that by (simp add: history_process_query_success history_update_location trim_history_full)
  have short: "history (fst (process_query w q c)) = history c @ [u]"
    if "status (snd (process_query w q c)) = ''success'' \<and> browser_current_url w = Some u \<and> u \<noteq> []
        \<and> length (history c) < 10"
    using that by (simp add: history_process_query_success history_update_location trim_history_short)
  from inv full short history_process_query_le [of c w q] show ?thesis
    by blast
qed

lemma process_query_ok_10:
  "process_query env_ok ''weather'' active_10 =
     (active_10\<lparr>steps := steps active @ [''Processing query: weather'', ''Browser agent initialized'',
          ''Executing query...'', ''Query execution completed'',
          ''Navigated to https://example.org/p10''],
        current_url := Some ''https://example.org/p10'',
        history := [''p1'', ''p2'', ''p3'', ''p4'', ''p5'', ''p6'', ''p7'', ''p8'', ''p9'',
          ''https://example.org/p10'']\<rparr>,
      QSuccess (PStr ''It is sunny.'') (Some ''https://example.org/p10'')
        (steps active @ [''Processing query: weather'', ''Browser agent initialized'',
          ''Executing query...'', ''Query execution completed'',
          ''Navigated to https://example.org/p10'']))"
  by (simp add: process_query_def env_ok_def active_10_def active_def attr_def candidate_answer_def
      update_location_def trim_history_def sanitize_def object_tag_def Let_def)

theorem history_bounded_witness:
  "length (history active_10) = 10
   \<and> status (snd (process_query env_ok ''weather'' active_10)) = ''success''
   \<and> browser_current_url env_ok = Some ''https://example.org/p10''
   \<and> history (fst (process_query env_ok ''weather'' active_10)) =
       [''p1'', ''p2'', ''p3'', ''p4'', ''p5'', ''p6'', ''p7'', ''p8'', ''p9'', ''https://example.org/p10'']
   \<and> length (history (run [Start provider_ok, Query env_ok ''weather'', Stop provider_ok] (init ''u''))) \<le> 10"
  using history_bounded [of "[Start provider_ok, Query env_ok ''weather'', Stop provider_ok]" "''u''"
      active_10 env_ok "''weather''" "''https://example.org/p10''"]
  by (simp add: process_query_ok_10) (simp add: active_10_def env_ok_def)

subsection \<open>Sanitization\<close>

lemma sanitize_replaced:
  "\<not> isinstance_str v \<or> v = PStr [] \<or> startswith v object_tag \<Longrightarrow> sanitize q v = PStr (apology q)"
  by (cases v) (auto simp add: sanitize_def)

lemma sanitize_kept:
  "isinstance_str v \<and> v \<noteq> PStr [] \<and> \<not> startswith v object_tag \<Longrightarrow> sanitize q v = v"
  by (cases v) (auto simp add: sanitize_def)

lemma apology_text: "apology q \<noteq> []" "\<not> prefix object_tag (apology q)" "sublist q (apology q)"
proof -
  show "apology q \<noteq> []" "\<not> prefix object_tag (apology q)"
    by (simp_all add: apology_def object_tag_def)
  show "sublist q (apology q)"
    unfolding apology_def by (rule sublist_appendI)
qed

lemma sanitize_text: "\<exists>s. sanitize q v = PStr s \<and> s \<noteq> [] \<and> \<not> prefix object_tag s"
proof (cases "\<not> isinstance_str v \<or> v = PStr [] \<or> startswith v object_tag")
  case True
  then have "sanitize q v = PStr (apology q)"
    by (rule sanitize_replaced)
  then show ?thesis
    by (simp add: apology_text)
next
  case False
  then have kept: "sanitize q v = v"
    by (simp add: sanitize_kept)
  from False obtain s where "v = PStr s" "s \<noteq> []" "\<not> prefix object_tag s"
    by (cases v) auto
  with kept show ?thesis
    by simp
qed

lemma process_query_success:
  assumes "status (snd (process_query w q c)) = ''success''"
  shows "\<exists>res v. agent_run w = Inr res \<and> candidate_answer w q res = Inr v
           \<and> aiResponse (snd (process_query w q c)) = sanitize q v"
  using assms
  by (auto simp add: process_query_def Let_def status_browser_failed status_query_failed
      split: option.splits sum.splits)

text \<open>
  C4. When \<^verbatim>\<open>process_query\<close> returns with status \<open>success\<close>, its \<^verbatim>\<open>aiResponse\<close> is the
  sanitized candidate answer of the pipeline, and it is a string, not empty, that does
  not begin with the tag \<open>AgentHistoryList\<close>. A candidate that is not a string, is the
  empty string or begins with the tag is replaced by the apology, which is not empty
  and contains the text of the query; any other candidate is kept.
\<close>

theorem answer_sanitized:
  "(status (snd (process_query w q c)) = ''success'' \<longrightarrow>
      (\<exists>res v. agent_run w = Inr res \<and> candidate_answer w q res = Inr v
         \<and> aiResponse (snd (process_query w q c)) = sanitize q v)
      \<and> (\<exists>s. aiResponse (snd (process_query w q c)) = PStr s \<and> s \<noteq> []
            \<and> \<not> prefix object_tag s))
   \<and> (\<not> isinstance_str v \<or> v = PStr [] \<or> startswith v object_tag \<longrightarrow>
        sanitize q v = PStr (apology q))
   \<and> (isinstance_str v \<and> v \<noteq> PStr [] \<and> \<not> startswith v object_tag \<longrightarrow> sanitize q v = v)
   \<and> apology q \<noteq> [] \<and> sublist q (apology q)"
proof -
  have "\<exists>s. aiResponse (snd (process_query w q c)) = PStr s \<and> s \<noteq> [] \<and> \<not> prefix object_tag s"
    if "status (snd (process_query w q c)) = ''success''"
    using process_query_success [OF that] sanitize_text by metis
  with process_query_success [of w q c] sanitize_replaced [of v q] sanitize_kept [of v q]
    apology_text [of q]
  show ?thesis
    by blast
qed

lemma process_query_raw:
  "snd (process_query env_raw ''weather'' active) =
     QSuccess (PStr ''I searched for information about weather, but encountered an issue formatting the results.'')
       (Some ''https://example.org/p10'')
       (steps active @ [''Processing query: weather'', ''Browser agent initialized'',
          ''Executing query...'', ''Query execution completed'',
          ''Navigated to https://example.org/p10''])"
  by (simp add: process_query_def env_raw_def env_ok_def active_def attr_def candidate_answer_def
      update_location_def trim_history_def sanitize_def object_tag_def apology_def Let_def)

theorem answer_sanitized_witness:
  "status (snd (process_query env_raw ''weather'' active)) = ''success''
   \<and> candidate_answer env_raw ''weather'' (trace [action_A, action_B, action_C])
       = Inr (PStr ''AgentHistoryList(all_results=[])'')
   \<and> startswith (PStr ''AgentHistoryList(all_results=[])'') object_tag
   \<and> aiResponse (snd (process_query env_raw ''weather'' active))
       = PStr ''I searched for information about weather, but encountered an issue formatting the results.''
   \<and> sanitize ''weather'' (PStr ''It is sunny.'') = PStr ''It is sunny.''
   \<and> sanitize ''weather'' PNone = PStr (apology ''weather'')"
  using answer_sanitized [of env_raw "''weather''" active "PStr ''AgentHistoryList(all_results=[])''"]
    answer_sanitized [of env_raw "''weather''" active "PStr ''It is sunny.''"]
    answer_sanitized [of env_raw "''weather''" active PNone]
  by (simp add: process_query_raw)
    (simp add: candidate_answer_def env_raw_def env_ok_def object_tag_def)

subsection \<open>Failures of a query\<close>

lemma browser_failed_eq:
  "browser_failed e c =
     (c\<lparr>steps := steps c @ [''Browser error: '' @ e]\<rparr>,
      QPartial (''I encountered an issue while trying to browse the web: '' @ e @
                ''. I'm unable to access web content for this query right now.'')
        (current_url c) (steps c @ [''Browser error: '' @ e]))"
  by (simp add: browser_failed_def Let_def)

lemma query_failed_eq:
  "query_failed e c =
     (c\<lparr>steps := steps c @ [''Error: '' @ e]\<rparr>,
      QError e (''I encountered an error while processing your request: '' @ e)
        (steps c @ [''Error: '' @ e]))"
  by (simp add: query_failed_def Let_def)

lemma process_query_setup_failure:
  assumes "llm_ctor w = None" "connection_url c = Some cu" "agent_setup w = Some e"
  shows "process_query w q c =
     browser_failed e (c\<lparr>steps := steps c @ [''Processing query: '' @ q] @ []\<rparr>)"
  using assms by (simp add: process_query_def attr_def Let_def)

lemma process_query_run_failure:
  assumes "llm_ctor w = None" "connection_url c = Some cu" "agent_setup w = None"
    "agent_run w = Inl e"
  shows "process_query w q c =
     browser_failed e (c\<lparr>steps := steps c @ [''Processing query: '' @ q]
        @ [''Browser agent initialized'', ''Executing query...'']\<rparr>)"
  using assms by (simp add: process_query_def attr_def Let_def)

lemma process_query_agent_failure:
  assumes "llm_ctor w = None" "connection_url c = Some cu"
    "agent_setup w = Some e \<or> agent_setup w = None \<and> agent_run w = Inl e"
  shows "\<exists>mid. process_query w q c =
     browser_failed e (c\<lparr>steps := steps c @ [''Processing query: '' @ q] @ mid\<rparr>)"
  using assms(3)
proof
  assume "agent_setup w = Some e"
  with assms(1,2) show ?thesis
    by (intro exI [of _ "[]"]) (rule process_query_setup_failure)
next
  assume "agent_setup w = None \<and> agent_run w = Inl e"
  with assms(1,2) show ?thesis
    by (intro exI [of _ "[''Browser agent initialized'', ''Executing query...'']"])
      (simp add: process_query_run_failure)
qed

lemma api_process_query_found:
  "t uid = Some c \<Longrightarrow> snd (api_process_query w uid q t) \<noteq> HTTP404"
  by (simp add: api_process_query_def split: prod.splits query_result.splits)

lemma process_query_log_irrelevant:
  "status (snd (process_query w q (c\<lparr>steps := l\<rparr>))) = status (snd (process_query w q c))
   \<and> aiResponse (snd (process_query w q (c\<lparr>steps := l\<rparr>))) = aiResponse (snd (process_query w q c))"
  by (simp add: process_query_def attr_def browser_failed_eq query_failed_eq Let_def
      split: option.splits sum.splits)

text \<open>
  C7. Take a session of the table whose connection URL is set, and a query during which
  the language-model constructors return and then either the construction of the
  browser handle and agent raises or \<^verbatim>\<open>agent.run()\<close> raises, with the text \<open>e\<close>. Then
  \<^verbatim>\<open>process_query\<close> returns status \<open>partial_success\<close> with an answer that is not empty and
  contains \<open>e\<close>, the current URL of the session, and the log, which ends with the entry
  of the error. The endpoint answers with these three (no error response), and keeps
  the session in the table with nothing but its log changed: a later query is not
  answered with "no active session", and gets the status and the answer it would have
  got without the failure.
\<close>

theorem agent_failure_partial_success:
  "t uid = Some c \<and> llm_ctor w = None \<and> connection_url c = Some cu
     \<and> (agent_setup w = Some e \<or> agent_setup w = None \<and> agent_run w = Inl e) \<longrightarrow>
   (\<exists>mid log a.
      log = steps c @ [''Processing query: '' @ q] @ mid @ [''Browser error: '' @ e]
      \<and> process_query w q c = (c\<lparr>steps := log\<rparr>, QPartial a (current_url c) log)
      \<and> status (snd (process_query w q c)) = ''partial_success''
      \<and> a \<noteq> [] \<and> sublist e a
      \<and> api_process_query w uid q t = (t(uid \<mapsto> c\<lparr>steps := log\<rparr>), Answer (PStr a) (current_url c) log)
      \<and> (\<forall>w' q'. snd (api_process_query w' uid q' (fst (api_process_query w uid q t))) \<noteq> HTTP404
            \<and> status (snd (process_query w' q' (c\<lparr>steps := log\<rparr>))) = status (snd (process_query w' q' c))
            \<and> aiResponse (snd (process_query w' q' (c\<lparr>steps := log\<rparr>)))
                = aiResponse (snd (process_query w' q' c))))"
proof
  assume h: "t uid = Some c \<and> llm_ctor w = None \<and> connection_url c = Some cu
     \<and> (agent_setup w = Some e \<or> agent_setup w = None \<and> agent_run w = Inl e)"
  define a where "a = ''I encountered an issue while trying to browse the web: '' @ e @
                ''. I'm unable to access web content for this query right now.''"
  from h obtain mid where pq: "process_query w q c =
     browser_failed e (c\<lparr>steps := steps c @ [''Processing query: '' @ q] @ mid\<rparr>)"
    using process_query_agent_failure [of w c cu e q] by blast
  define log where "log = steps c @ [''Processing query: '' @ q] @ mid @ [''Browser error: '' @ e]"
  from pq have pq': "process_query w q c = (c\<lparr>steps := log\<rparr>, QPartial a (current_url c) log)"
    by (simp add: log_def a_def browser_failed_eq)
  have a: "a \<noteq> []" "sublist e a"
  proof -
    show "a \<noteq> []"
      by (simp add: a_def)
    show "sublist e a"
      unfolding a_def by (rule sublist_appendI)
  qed
  from h pq' have api: "api_process_query w uid q t
      = (t(uid \<mapsto> c\<lparr>steps := log\<rparr>), Answer (PStr a) (current_url c) log)"
    by (simp add: api_process_query_def)
  have later: "snd (api_process_query w' uid q' (fst (api_process_query w uid q t))) \<noteq> HTTP404" for w' q'
    by (rule api_process_query_found [of _ _ "c\<lparr>steps := log\<rparr>"]) (simp add: api)
  from pq' a api later process_query_log_irrelevant [where c = c and l = log] log_def
  show "\<exists>mid log a.
      log = steps c @ [''Processing query: '' @ q] @ mid @ [''Browser error: '' @ e]
      \<and> process_query w q c = (c\<lparr>steps := log\<rparr>, QPartial a (current_url c) log)
      \<and> status (snd (process_query w q c)) = ''partial_success''
      \<and> a \<noteq> [] \<and> sublist e a
      \<and> api_process_query w uid q t = (t(uid \<mapsto> c\<lparr>steps := log\<rparr>), Answer (PStr a) (current_url c) log)
      \<and> (\<forall>w' q'. snd (api_process_query w' uid q' (fst (api_process_query w uid q t))) \<noteq> HTTP404
            \<and> status (snd (process_query w' q' (c\<lparr>steps := log\<rparr>))) = status (snd (process_query w' q' c))
            \<and> aiResponse (snd (process_query w' q' (c\<lparr>steps := log\<rparr>)))
                = aiResponse (snd (process_query w' q' c)))"
    by (intro exI [of _ mid] exI [of _ log] exI [of _ a]) simp
qed

lemma process_query_agent_down:
  "process_query env_agent_down ''weather'' active =
     (active\<lparr>steps := steps active @ [''Processing query: weather'', ''Browser agent initialized'',
          ''Executing query...'', ''Browser error: net::ERR_TIMED_OUT'']\<rparr>,
      QPartial ''I encountered an issue while trying to browse the web: net::ERR_TIMED_OUT. I'm unable to access web content for this query right now.''
        (Some google)
        (steps active @ [''Processing query: weather'', ''Browser agent initialized'',
          ''Executing query...'', ''Browser error: net::ERR_TIMED_OUT'']))"
  by (simp add: process_query_def env_agent_down_def env_ok_def active_def attr_def
      browser_failed_eq Let_def)

theorem agent_failure_partial_success_witness:
  "[''u'' \<mapsto> active] ''u'' = Some active \<and> llm_ctor env_agent_down = None
   \<and> connection_url active = Some ''wss://connect.example/sess-1''
   \<and> agent_setup env_agent_down = None \<and> agent_run env_agent_down = Inl ''net::ERR_TIMED_OUT''
   \<and> status (snd (process_query env_agent_down ''weather'' active)) = ''partial_success''
   \<and> snd (api_process_query env_agent_down ''u'' ''weather'' [''u'' \<mapsto> active]) =
       Answer (PStr ''I encountered an issue while trying to browse the web: net::ERR_TIMED_OUT. I'm unable to access web content for this query right now.'')
         (Some google)
         (steps active @ [''Processing query: weather'', ''Browser agent initialized'',
          ''Executing query...'', ''Browser error: net::ERR_TIMED_OUT''])
   \<and> snd (api_process_query env_ok ''u'' ''weather''
              (fst (api_process_query env_agent_down ''u'' ''weather'' [''u'' \<mapsto> active]))) \<noteq> HTTP404"
  using agent_failure_partial_success [of "[''u'' \<mapsto> active]" "''u''" active env_agent_down
      "''wss://connect.example/sess-1''" "''net::ERR_TIMED_OUT''" "''weather''"]
  by (simp add: process_query_agent_down api_process_query_def)
    (simp add: env_agent_down_def env_ok_def active_def)

lemma process_query_error_iff:
  "(status (snd (process_query w q c)) = ''error'') = (llm_ctor w \<noteq> None \<or> connection_url c = None)"
  by (simp add: process_query_def attr_def Let_def status_browser_failed status_query_failed
      split: option.splits sum.splits)

lemma process_query_error:
  assumes "status (snd (process_query w q c)) = ''error''"
  shows "\<exists>e. process_query w q c =
           query_failed e (c\<lparr>steps := steps c @ [''Processing query: '' @ q]\<rparr>)"
proof (cases "llm_ctor w")
  case (Some e)
  then have "process_query w q c = query_failed e (c\<lparr>steps := steps c @ [''Processing query: '' @ q]\<rparr>)"
    by (simp add: process_query_def Let_def)
  then show ?thesis
    by (intro exI [of _ e])
next
  case None
  with assms have "connection_url c = None"
    by (simp add: process_query_error_iff)
  with None have "process_query w q c =
      query_failed (''object has no attribute connection_url'')
        (c\<lparr>steps := steps c @ [''Processing query: '' @ q]\<rparr>)"
    by (simp add: process_query_def attr_def Let_def)
  then show ?thesis
    by (intro exI [of _ "''object has no attribute connection_url''"])
qed

text \<open>
  C8 (amended). \<^verbatim>\<open>process_query\<close> returns status \<open>error\<close> exactly when a language-model
  constructor raises or the controller has no connection URL, that is, on a failure
  outside the agent and the summarizer. Its result then carries the text of the error,
  an apology that ends with it, and the narration log, whose last entry records the
  error; the controller keeps that log. The endpoint turns this result into a response
  of status 500 whose detail is the text of the error: the log is not in it.
\<close>

theorem unexpected_failure_result:
  "((status (snd (process_query w q c)) = ''error'') = (llm_ctor w \<noteq> None \<or> connection_url c = None))
   \<and> (status (snd (process_query w q c)) = ''error'' \<longrightarrow>
        (\<exists>e log.
           log = steps c @ [''Processing query: '' @ q, ''Error: '' @ e]
           \<and> process_query w q c =
               (c\<lparr>steps := log\<rparr>,
                QError e (''I encountered an error while processing your request: '' @ e) log)
           \<and> (t uid = Some c \<longrightarrow>
                api_process_query w uid q t = (t(uid \<mapsto> c\<lparr>steps := log\<rparr>), HTTP500 e)
                \<and> response_steps (snd (api_process_query w uid q t)) = None)))"
proof -
  have "\<exists>e log.
           log = steps c @ [''Processing query: '' @ q, ''Error: '' @ e]
           \<and> process_query w q c =
               (c\<lparr>steps := log\<rparr>,
                QError e (''I encountered an error while processing your request: '' @ e) log)
           \<and> (t uid = Some c \<longrightarrow>
                api_process_query w uid q t = (t(uid \<mapsto> c\<lparr>steps := log\<rparr>), HTTP500 e)
                \<and> response_steps (snd (api_process_query w uid q t)) = None)"
    if "status (snd (process_query w q c)) = ''error''"
  proof -
    from process_query_error [OF that] obtain e where
      pq: "process_query w q c = query_failed e (c\<lparr>steps := steps c @ [''Processing query: '' @ q]\<rparr>)"
      by blast
    define log where "log = steps c @ [''Processing query: '' @ q, ''Error: '' @ e]"
    from pq have pq': "process_query w q c =
               (c\<lparr>steps := log\<rparr>,
                QError e (''I encountered an error while processing your request: '' @ e) log)"
      by (simp add: query_failed_eq log_def)
    then have "t uid = Some c \<longrightarrow>
                api_process_query w uid q t = (t(uid \<mapsto> c\<lparr>steps := log\<rparr>), HTTP500 e)
                \<and> response_steps (snd (api_process_query w uid q t)) = None"
      by (simp add: api_process_query_def)
    with pq' log_def show ?thesis
      by (intro exI [of _ e] exI [of _ log]) simp
  qed
  with process_query_error_iff [of w q c] show ?thesis
    by blast
qed

lemma process_query_no_llm:
  "process_query env_no_llm ''weather'' active =
     (active\<lparr>steps := steps active @ [''Processing query: weather'', ''Error: api_key must be set'']\<rparr>,
      QError ''api_key must be set''
        ''I encountered an error while processing your request: api_key must be set''
        (steps active @ [''Processing query: weather'', ''Error: api_key must be set'']))"
  by (simp add: process_query_def env_no_llm_def env_ok_def active_def query_failed_eq Let_def)

theorem unexpected_failure_result_witness:
  "status (snd (process_query env_no_llm ''weather'' active)) = ''error''
   \<and> llm_ctor env_no_llm = Some ''api_key must be set''
   \<and> [''u'' \<mapsto> active] ''u'' = Some active
   \<and> result_steps (snd (process_query env_no_llm ''weather'' active)) =
       [''Browser session initialized'', ''Starting with https://www.google.com'',
        ''Processing query: weather'', ''Error: api_key must be set'']
   \<and> steps (fst (process_query env_no_llm ''weather'' active)) =
       [''Browser session initialized'', ''Starting with https://www.google.com'',
        ''Processing query: weather'', ''Error: api_key must be set'']
   \<and> snd (api_process_query env_no_llm ''u'' ''weather'' [''u'' \<mapsto> active]) = HTTP500 ''api_key must be set''"
  using unexpected_failure_result [of env_no_llm "''weather''" active "[''u'' \<mapsto> active]" "''u''"]
  by (simp add: process_query_no_llm api_process_query_def)
    (simp add: env_no_llm_def env_ok_def active_def google_def)

text \<open>
  C8 as stated fails at the endpoint: the result of the controller has the four entries
  of the log, the response to the caller has none.
\<close>

theorem unexpected_failure_counterexample:
  "result_steps (snd (process_query env_no_llm ''weather'' active)) =
       [''Browser session initialized'', ''Starting with https://www.google.com'',
        ''Processing query: weather'', ''Error: api_key must be set'']
   \<and> snd (api_process_query env_no_llm ''u'' ''weather'' [''u'' \<mapsto> active]) = HTTP500 ''api_key must be set''
   \<and> response_steps (snd (api_process_query env_no_llm ''u'' ''weather'' [''u'' \<mapsto> active])) = None"
  by (simp add: process_query_no_llm api_process_query_def) (simp add: active_def google_def)

subsection \<open>Starting a session\<close>

lemma start_session_reuse:
  assumes "sessions_create p = Inl e" "sublist limit_message e"
    "sessions_list p = Inr (first # rest)" "sessions_retrieve p (ident first) = Inr s"
    "sessions_debug p (ident s) = Inr d"
  shows "start_session p c =
     (c\<lparr>session := Some s, session_id := Some (ident s), debug_links := Some d,
        current_url := Some google, connection_url := Some (connect_url s),
        steps := steps c @ [''Browser session reused'', ''Starting with '' @ google]\<rparr>,
      Connected (ident s) google (debuggerFullscreenUrl d))"
  using assms by (simp add: start_session_def reuse_existing_def adopt_def Let_def)

lemma start_session_nothing_to_reuse:
  assumes "sessions_create p = Inl e" "sublist limit_message e" "sessions_list p = Inr []"
  shows "start_session p c = (c, StartError e)"
  using assms by (simp add: start_session_def reuse_existing_def start_failed_def)

lemma start_browser_error:
  assumes "t uid = None" "start_session p (init uid) = (c, StartError e)"
  shows "start_browser p uid t = (t, StartHTTP500 e)"
proof -
  from assms(1) have "(t(uid \<mapsto> c))(uid := None) = t"
    by (simp add: fun_upd_idem)
  with assms show ?thesis
    by (simp add: start_browser_def)
qed

text \<open>
  C6. Let the creation call fail with a text that contains the provider's message for
  the limit of concurrent sessions. If the provider lists at least one session, its
  full record \<open>s\<close> is retrieved by the identifier of the first entry, and the debug links
  of \<open>s\<close> are obtained, then \<^verbatim>\<open>start_session\<close> returns a connected result and the
  controller records \<open>s\<close>: its identifier and its connection URL are those of the
  retrieved record, not of the list entry. If the provider lists no session,
  \<^verbatim>\<open>start_session\<close> changes nothing and returns an error with the text of the creation
  failure, which the endpoint passes on.
\<close>

theorem concurrency_limit_reuse:
  "(sessions_create p = Inl e \<and> sublist limit_message e
      \<and> sessions_list p = Inr (first # rest) \<and> sessions_retrieve p (ident first) = Inr s
      \<and> sessions_debug p (ident s) = Inr d \<longrightarrow>
      start_session p c =
        (c\<lparr>session := Some s, session_id := Some (ident s), debug_links := Some d,
           current_url := Some google, connection_url := Some (connect_url s),
           steps := steps c @ [''Browser session reused'', ''Starting with '' @ google]\<rparr>,
         Connected (ident s) google (debuggerFullscreenUrl d)))
   \<and> (sessions_create p = Inl e \<and> sublist limit_message e \<and> sessions_list p = Inr [] \<longrightarrow>
        start_session p c = (c, StartError e)
        \<and> (t uid = None \<longrightarrow> start_browser p uid t = (t, StartHTTP500 e)))"
proof -
  have "start_browser p uid t = (t, StartHTTP500 e)"
    if "sessions_create p = Inl e \<and> sublist limit_message e \<and> sessions_list p = Inr []" "t uid = None"
    using that start_session_nothing_to_reuse [of p e "init uid"] start_browser_error [of t uid p "init uid" e]
    by simp
  with start_session_reuse [of p e first rest s d c] start_session_nothing_to_reuse [of p e c]
  show ?thesis
    by blast
qed

lemma limit_in_429: "sublist limit_message (''Error 429: '' @ limit_message)"
  by (rule sublist_append_leftI)

theorem concurrency_limit_reuse_witness:
  "sessions_create provider_full = Inl (''Error 429: '' @ limit_message)
   \<and> sublist limit_message (''Error 429: '' @ limit_message)
   \<and> sessions_list provider_full = Inr [remote_2_listed, remote_1]
   \<and> connect_url remote_2_listed = ''wss://stale.example/sess-2''
   \<and> sessions_retrieve provider_full (ident remote_2_listed) = Inr remote_2
   \<and> sessions_debug provider_full (ident remote_2) = Inr links_1
   \<and> snd (start_session provider_full (init ''u'')) =
       Connected ''sess-2'' google ''https://live.example/view''
   \<and> session_id (fst (start_session provider_full (init ''u''))) = Some ''sess-2''
   \<and> connection_url (fst (start_session provider_full (init ''u''))) = Some ''wss://connect.example/sess-2''
   \<and> sessions_list provider_full_alone = Inr []
   \<and> start_session provider_full_alone (init ''u'') =
       (init ''u'', StartError (''Error 429: '' @ limit_message))"
  using concurrency_limit_reuse [of provider_full "''Error 429: '' @ limit_message"
      remote_2_listed "[remote_1]" remote_2 links_1 "init ''u''" Map.empty "''u''"]
    concurrency_limit_reuse [of provider_full_alone "''Error 429: '' @ limit_message"
      remote_2_listed "[remote_1]" remote_2 links_1 "init ''u''" Map.empty "''u''"]
    limit_in_429
  by (simp add: provider_full_alone_def provider_full_def remote_2_listed_def remote_2_def links_1_def)

lemma start_browser_existing:
  "t uid = Some c \<Longrightarrow> start_browser p uid t = (t, AlreadyExists (session_id c))"
  by (simp add: start_browser_def)

lemma start_browser_calls_existing:
  "t uid = Some c \<Longrightarrow>
     start_browser_calls ps uid t = (t, replicate (length ps) (AlreadyExists (session_id c)))"
  by (induction ps) (simp_all add: start_browser_existing)

lemma start_browser_fresh:
  assumes "t uid = None"
  shows "(\<exists>c sid url. start_browser p uid t = (t(uid \<mapsto> c), Started sid url) \<and> session_id c = Some sid)
         \<or> (\<exists>e. start_browser p uid t = (t, StartHTTP500 e))"
proof (cases "start_session p (init uid)")
  case (Pair c r)
  show ?thesis
  proof (cases r)
    case (Connected sid url live)
    with Pair start_session_connected [of p "init uid" c sid url live]
    have "session_id c = Some sid"
      by auto
    moreover from assms Pair Connected
    have "start_browser p uid t = (t(uid \<mapsto> c), Started sid url)"
      by (simp add: start_browser_def)
    ultimately show ?thesis
      by blast
  next
    case (StartError e)
    with assms Pair have "start_browser p uid t = (t, StartHTTP500 e)"
      by (simp add: start_browser_error)
    then show ?thesis
      by blast
  qed
qed

text \<open>
  C5 (amended). Take calls of \<^verbatim>\<open>start_browser\<close> for one user, with no stop in between
  and the provider behaving in any way. While the table holds a Session for the user,
  every call leaves the table unchanged and returns the identifier stored in that
  Session. When there is none and a call succeeds, the table gains exactly that one
  Session, which holds the identifier the call returns, and every later call leaves the
  table unchanged and returns that identifier. A call that fails leaves the table as it
  was, without a Session for the user.
\<close>

theorem start_browser_idempotent:
  "(t uid = Some c \<longrightarrow>
      start_browser_calls ps uid t = (t, replicate (length ps) (AlreadyExists (session_id c))))
   \<and> (t uid = None \<and> start_browser p uid t = (t', Started sid url) \<longrightarrow>
        (\<exists>c'. t' = t(uid \<mapsto> c') \<and> session_id c' = Some sid)
        \<and> start_browser_calls ps uid t' = (t', replicate (length ps) (AlreadyExists (Some sid))))
   \<and> (t uid = None \<and> snd (start_browser p uid t) = StartHTTP500 e \<longrightarrow>
        fst (start_browser p uid t) = t)"
proof -
  have started: "(\<exists>c'. t' = t(uid \<mapsto> c') \<and> session_id c' = Some sid)
        \<and> start_browser_calls ps uid t' = (t', replicate (length ps) (AlreadyExists (Some sid)))"
    if h: "t uid = None \<and> start_browser p uid t = (t', Started sid url)"
  proof -
    from h start_browser_fresh [of t uid p]
    obtain c' where c': "t' = t(uid \<mapsto> c')" "session_id c' = Some sid"
      by auto
    then have "t' uid = Some c'"
      by simp
    with start_browser_calls_existing [of t' uid c' ps] c' show ?thesis
      by auto
  qed
  have failed: "fst (start_browser p uid t) = t"
    if "t uid = None \<and> snd (start_browser p uid t) = StartHTTP500 e"
    using that start_browser_fresh [of t uid p] by auto
  from start_browser_calls_existing [of t uid c ps] started failed show ?thesis
    by blast
qed

lemma start_browser_ok:
  "start_browser provider_ok ''u'' Map.empty =
     ([''u'' \<mapsto> fst (start_session provider_ok (init ''u''))], Started ''sess-1'' google)"
  by (simp add: start_browser_def start_ok)

lemma start_browser_down:
  "start_browser provider_down ''u'' Map.empty = (Map.empty, StartHTTP500 ''service unavailable'')"
  by (rule start_browser_error [of _ _ _ "init ''u''"])
    (simp_all add: start_session_def reuse_existing_def start_failed_def provider_down_def
      limit_message_def sublist_Cons_right)

theorem start_browser_idempotent_witness:
  "Map.empty ''u'' = None
   \<and> start_browser provider_ok ''u'' Map.empty =
       ([''u'' \<mapsto> fst (start_session provider_ok (init ''u''))], Started ''sess-1'' google)
   \<and> start_browser_calls [provider_ok, provider_down, provider_full] ''u''
        [''u'' \<mapsto> fst (start_session provider_ok (init ''u''))] =
       ([''u'' \<mapsto> fst (start_session provider_ok (init ''u''))],
        [AlreadyExists (Some ''sess-1''), AlreadyExists (Some ''sess-1''), AlreadyExists (Some ''sess-1'')])
   \<and> snd (start_browser provider_down ''u'' Map.empty) = StartHTTP500 ''service unavailable''
   \<and> fst (start_browser provider_down ''u'' Map.empty) = Map.empty"
  using start_browser_idempotent [of Map.empty "''u''" active "[provider_ok, provider_down, provider_full]"
      provider_ok "[''u'' \<mapsto> fst (start_session provider_ok (init ''u''))]" "''sess-1''" google
      "''service unavailable''"]
    start_browser_idempotent [of Map.empty "''u''" active "[provider_ok, provider_down, provider_full]"
      provider_down "[''u'' \<mapsto> fst (start_session provider_ok (init ''u''))]" "''sess-1''" google
      "''service unavailable''"]
  by (simp add: start_browser_ok start_browser_down)

text \<open>
  C5 as stated fails when the first call fails: it records no identifier and keeps no
  Session, and the second call changes the table.
\<close>

theorem start_browser_idempotent_counterexample:
  "start_browser provider_down ''u'' Map.empty = (Map.empty, StartHTTP500 ''service unavailable'')
   \<and> start_browser provider_ok ''u'' (fst (start_browser provider_down ''u'' Map.empty)) =
       ([''u'' \<mapsto> fst (start_session provider_ok (init ''u''))], Started ''sess-1'' google)
   \<and> [''u'' \<mapsto> fst (start_session provider_ok (init ''u''))] ''u'' \<noteq> Map.empty ''u''"
  by (simp add: start_browser_ok start_browser_down)

subsection \<open>The stream relay\<close>

lemma live_view_no_steps: "filter is_steps (live_view c) = []"
  by (simp add: live_view_def split: option.splits)







lemma relay_tick_accepting:
  "relay_tick accepting c after n =
     (live_view c @ [UrlMsg (url_or_blank c)]
        @ (if n < length (steps c) then [StepsMsg (steps c)] else []),
      if n < length (steps c) then length (steps after) else n)"
  by (simp add: relay_tick_def accepting_def Let_def list_all_iff)






lemma steps_watched:
  "streaming watched" "streaming watched_later" "streaming watched_latest"
  "steps watched = steps active"
  "steps watched_later = steps active @ [''Processing query: weather'']"
  "steps watched_latest = steps active @ [''Processing query: weather''] @ [''Browser agent initialized'']"
  "debug_links watched_later = Some links_1" "debuggerFullscreenUrl links_1 \<noteq> []"
  "current_url watched_later = Some google" "google \<noteq> []"
  by (simp_all add: watched_latest_def watched_later_def watched_def active_def links_1_def
      google_def)


text \<open>A pass during which \<^verbatim>\<open>send_json\<close> raises delivers nothing and remembers nothing.\<close>

lemma relay_tick_refused:
  "relay_tick refusing watched_later watched_later 2 = ([], 2)"
  by (simp add: relay_tick_def refusing_def live_view_def steps_watched Let_def)

text \<open>
  An entry appended while the push of the log is awaited is counted as pushed: the
  next pass, which reads the longer log, sends no \<open>steps\<close> message.
\<close>

lemma growth_during_push_not_pushed:
  "map (filter is_steps)
     (relay_loop [(accepting, watched_later, watched_latest),
                  (accepting, watched_latest, watched_latest)] (length (steps active)))
   = [[StepsMsg (steps watched_later)], []]"
  by (simp add: relay_tick_accepting live_view_no_steps steps_watched)

end
